theory Spec2Isabelle
  imports Complex_Main "HOL-Library.Multiset"
begin

section \<open>Characters and strings as the Python code sees them\<close>

text \<open>
  A Python \<open>str\<close> is modelled as a \<open>string\<close> whose characters are the code points
  0..255. On that range \<open>\s\<close> and \<open>str.strip()\<close> use the same set of white space
  (9..13, 28..32, 133, 160), \<open>\d\<close> is \<open>0..9\<close>, and \<open>.\<close> is every character but the
  line feed.
\<close>

definition newline :: char where
  "newline = CHR 0x0A"

definition isspace :: "char \<Rightarrow> bool" where
  "isspace c = (c \<in> {CHR 0x09, CHR 0x0A, CHR 0x0B, CHR 0x0C, CHR 0x0D,
                       CHR 0x1C, CHR 0x1D, CHR 0x1E, CHR 0x1F, CHR 0x20,
                       CHR 0x85, CHR 0xA0})"

definition isdigit :: "char \<Rightarrow> bool" where
  "isdigit c = (c \<in> set ''0123456789'')"

definition is_a_to_z :: "char \<Rightarrow> bool" where
  "is_a_to_z c = (c \<in> set ''abcdefghijklmnopqrstuvwxyz'')"

text \<open>\<open>str.lower()\<close> on the code points 0..255: A..Z and the Latin-1 capitals move by 32.\<close>

definition lower_char :: "char \<Rightarrow> char" where
  "lower_char c =
     (let n = (of_char c :: nat)
      in if (65 \<le> n \<and> n \<le> 90) \<or> (192 \<le> n \<and> n \<le> 222 \<and> n \<noteq> 215)
         then char_of (n + 32) else c)"

definition lower :: "string \<Rightarrow> string" where
  "lower s = map lower_char s"

text \<open>\<open>s.strip()\<close>: white space removed at both ends.\<close>

definition strip :: "string \<Rightarrow> string" where
  "strip s = rev (dropWhile isspace (rev (dropWhile isspace s)))"

text \<open>\<open>s.startswith(p)\<close>.\<close>

definition startswith :: "string \<Rightarrow> string \<Rightarrow> bool" where
  "startswith p s = (take (length p) s = p)"

text \<open>\<open>content.split('\n')\<close>: the pieces between line feeds, at least one piece.\<close>

fun split_lines :: "string \<Rightarrow> string list" where
  "split_lines [] = [[]]"
| "split_lines (c # cs) =
     (if c = newline then [] # split_lines cs
      else (case split_lines cs of l # ls \<Rightarrow> (c # l) # ls | [] \<Rightarrow> [[c]]))"

text \<open>
  The exceptions of the two scripts. \<open>ExternalError\<close> stands for what the libraries
  raise (an HTTP error status, a failed connection, a file that cannot be read or written),
  \<open>SystemExit\<close> with its exit status is what \<open>argparse\<close> leaves the program with.
\<close>

datatype error =
  IndexError | KeyError string | ValueError string | AttributeError string
  | ExternalError string | SystemExit int

text \<open>
  \<open>line.split(':', 1)[1]\<close>: what follows the first colon; the subscript raises
  IndexError when the line has no colon.
\<close>

definition after_colon :: "string \<Rightarrow> error + string" where
  "after_colon line =
     (case dropWhile (\<lambda>c. c \<noteq> CHR '':'') line of
        [] \<Rightarrow> Inl IndexError
      | _ # rest \<Rightarrow> Inr rest)"

section \<open>The regular expressions of the parser\<close>

text \<open>
  Each \<open>re.match\<close> of the source is a function from the line to its groups (None when
  the pattern does not match at the start of the line). All the patterns but the two
  repetition tests end in \<open>\s+(.+)\<close>: white space, as much as can be taken while a
  character other than a line feed still follows, then that character and the rest up to
  the next line feed.
\<close>

fun ws_any :: "string \<Rightarrow> string option" where
  "ws_any [] = None"
| "ws_any (c # cs) =
     (if isspace c then
        (case ws_any cs of
           Some g \<Rightarrow> Some g
         | None \<Rightarrow>
            (case cs of
               [] \<Rightarrow> None
             | d # _ \<Rightarrow> if d \<noteq> newline then Some (takeWhile (\<lambda>x. x \<noteq> newline) cs) else None))
      else None)"

text \<open>\<open>re.match(r'^\d+\.\s+', line)\<close>\<close>

definition header_match :: "string \<Rightarrow> bool" where
  "header_match line =
     (takeWhile isdigit line \<noteq> [] \<and>
      (case dropWhile isdigit line of
         c # d # _ \<Rightarrow> c = CHR ''.'' \<and> isspace d
       | _ \<Rightarrow> False))"

text \<open>\<open>re.match(r'^\d+\.\s+(.+)', question_line)\<close>, giving group 1.\<close>

definition question_match :: "string \<Rightarrow> string option" where
  "question_match line =
     (if takeWhile isdigit line = [] then None
      else (case dropWhile isdigit line of
              [] \<Rightarrow> None
            | c # r \<Rightarrow> if c = CHR ''.'' then ws_any r else None))"

text \<open>
  \<open>re.match(r'^(\*?)([a-z])\)\s+(.+)', line)\<close>, giving groups 1 and 3. When the optional
  star is given up the letter class meets the star and fails, so the star is taken
  whenever it is there.
\<close>

definition choice_match :: "string \<Rightarrow> (string \<times> string) option" where
  "choice_match line =
     (let (star, r) = (case line of
                         c # r \<Rightarrow> if c = CHR ''*'' then (''*'', r) else ('''', line)
                       | [] \<Rightarrow> ('''', line))
      in case r of
           l # p # r' \<Rightarrow>
             if is_a_to_z l \<and> p = CHR '')'' then map_option (Pair star) (ws_any r') else None
         | _ \<Rightarrow> None)"

text \<open>
  \<open>re.match(r'^\[(.?)\]\s+(.+)', line)\<close>, giving groups 1 and 2: first with one character
  between the brackets, then with none.
\<close>

definition multi_choice_match :: "string \<Rightarrow> (string \<times> string) option" where
  "multi_choice_match line =
     (case line of
        [] \<Rightarrow> None
      | c # r \<Rightarrow>
          if c = CHR ''['' then
            (case (case r of
                     d # e # r' \<Rightarrow>
                       if d \<noteq> newline \<and> e = CHR '']''
                       then map_option (Pair [d]) (ws_any r') else None
                   | _ \<Rightarrow> None) of
               Some g \<Rightarrow> Some g
             | None \<Rightarrow>
                 (case r of
                    [] \<Rightarrow> None
                  | e # r' \<Rightarrow>
                      if e = CHR '']'' then map_option (Pair []) (ws_any r') else None))
          else None)"

text \<open>\<open>re.match(r'^=\s+(.+)', line)\<close>\<close>

definition numerical_match :: "string \<Rightarrow> string option" where
  "numerical_match line =
     (case line of [] \<Rightarrow> None | c # r \<Rightarrow> if c = CHR ''='' then ws_any r else None)"

text \<open>\<open>re.match(r'^\*\s+(.+)', line)\<close>\<close>

definition short_answer_match :: "string \<Rightarrow> string option" where
  "short_answer_match line =
     (case line of [] \<Rightarrow> None | c # r \<Rightarrow> if c = CHR ''*'' then ws_any r else None)"

text \<open>\<open>re.match(r'^_{3,}', line)\<close> and \<open>re.match(r'^\^{3,}', line)\<close>\<close>

definition essay_match :: "string \<Rightarrow> bool" where
  "essay_match line = startswith ''___'' line"

definition file_upload_match :: "string \<Rightarrow> bool" where
  "file_upload_match line = startswith ''^^^'' line"

section \<open>The parsed quiz\<close>

datatype question_type =
  multiple_choice | multiple_answer | true_false | numerical | short_answer | essay
  | file_upload

record choice =
  ctext :: string
  correct :: bool

text \<open>
  The question dictionary: \<open>answers\<close> and \<open>answer\<close> are keys that a question may lack.
\<close>

record question =
  qtext :: string
  qtype :: question_type
  choices :: "choice list"
  points :: real
  answers :: "string list option"
  answer :: "string option"

text \<open>
  One turn of the scanning loop of \<open>_parse_question\<close> on a stripped line that is not a
  question header: the chain of tests in the order of the source. Every branch ends in
  \<open>i += 1\<close>, which is in \<open>scan_body\<close>.
\<close>

definition scan_line :: "string \<Rightarrow> question \<Rightarrow> question" where
  "scan_line line q =
     (case choice_match line of
        Some (star, choice_text) \<Rightarrow>
          q\<lparr>choices := choices q @ [\<lparr>ctext = choice_text, correct = (star = ''*'')\<rparr>],
            qtype := multiple_choice\<rparr>
      | None \<Rightarrow>
     (case multi_choice_match line of
        Some (mark, choice_text) \<Rightarrow>
          q\<lparr>choices := choices q @ [\<lparr>ctext = choice_text, correct = (mark = ''*'')\<rparr>],
            qtype := multiple_answer\<rparr>
      | None \<Rightarrow>
     (case numerical_match line of
        Some g \<Rightarrow> q\<lparr>qtype := numerical, answer := Some (strip g)\<rparr>
      | None \<Rightarrow>
     (case short_answer_match line of
        Some g \<Rightarrow>
          q\<lparr>answers := Some ((case answers q of None \<Rightarrow> [] | Some a \<Rightarrow> a) @ [g]),
            qtype := short_answer\<rparr>
      | None \<Rightarrow>
     (if essay_match line then q\<lparr>qtype := essay\<rparr>
      else if file_upload_match line then q\<lparr>qtype := file_upload\<rparr>
      else q)))))"

text \<open>The \<open>while i < len(lines)\<close> loop of \<open>_parse_question\<close>; it stops at a header.\<close>

function scan_body :: "string list \<Rightarrow> nat \<Rightarrow> question \<Rightarrow> question \<times> nat" where
  "scan_body lines i q =
     (if i < length lines then
        (let line = strip (lines ! i)
         in if header_match line then (q, i)
            else scan_body lines (i + 1) (scan_line line q))
      else (q, i))"
  by pat_completeness auto
termination
  by (relation "measure (\<lambda>(lines, i, q). length lines - i)") auto

declare scan_body.simps [simp del]

text \<open>The true/false detection that follows the loop.\<close>

definition detect_true_false :: "question \<Rightarrow> question" where
  "detect_true_false q =
     (if qtype q = multiple_choice \<and> length (choices q) = 2 then
        (let choice_texts = map (\<lambda>c. lower (ctext c)) (choices q)
         in if (''true'' \<in> set choice_texts \<and> ''false'' \<in> set choice_texts) \<or>
               (''yes'' \<in> set choice_texts \<and> ''no'' \<in> set choice_texts)
            then q\<lparr>qtype := true_false\<rparr> else q)
      else q)"

definition new_question :: "string \<Rightarrow> question" where
  "new_question question_text =
     \<lparr>qtext = question_text, qtype = multiple_choice, choices = [], points = 1,
      answers = None, answer = None\<rparr>"

text \<open>
  \<open>Text2QtiParser._parse_question(lines, start_idx)\<close>: the question (or None) and the
  index of the next line. The subscript \<open>lines[start_idx]\<close> raises IndexError out of range.
  The \<open>print(question_text)\<close> of the source writes to standard output only and is left out.
\<close>

definition parse_question ::
  "string list \<Rightarrow> nat \<Rightarrow> error + (question option \<times> nat)" where
  "parse_question lines start_idx =
     (if start_idx < length lines then
        (let question_line = strip (lines ! start_idx)
         in case question_match question_line of
              None \<Rightarrow> Inr (None, start_idx + 1)
            | Some question_text \<Rightarrow>
                (let (question, i) = scan_body lines (start_idx + 1) (new_question question_text)
                 in Inr (Some (detect_true_false question), i)))
      else Inl IndexError)"

text \<open>
  The state of a \<open>Text2QtiParser\<close>. The dictionary that \<open>parse_content\<close> returns holds these
  four fields, under the keys \<open>title\<close>, \<open>description\<close>, \<open>multiple_attempts\<close> and
  \<open>questions\<close>, as they are when the loop ends.
\<close>

record parser =
  quiz_title :: string
  quiz_description :: string
  multiple_attempts :: string
  questions :: "question list"

text \<open>\<open>Text2QtiParser.__init__\<close>\<close>

definition new_parser :: parser where
  "new_parser =
     \<lparr>quiz_title = ''Quiz'', quiz_description = [], multiple_attempts = [], questions = []\<rparr>"

text \<open>The three quiz settings, tested one after the other on every line that is kept.\<close>

definition parse_settings :: "string \<Rightarrow> parser \<Rightarrow> error + parser" where
  "parse_settings line self =
     (case (if startswith ''quiz title:'' (lower line) then
              (case after_colon line of
                 Inl e \<Rightarrow> Inl e
               | Inr v \<Rightarrow> Inr (self\<lparr>quiz_title := strip v\<rparr>))
            else Inr self) of
        Inl e \<Rightarrow> Inl e
      | Inr self1 \<Rightarrow>
     (case (if startswith ''quiz description:'' (lower line) then
              (case after_colon line of
                 Inl e \<Rightarrow> Inl e
               | Inr v \<Rightarrow> Inr (self1\<lparr>quiz_description := strip v\<rparr>))
            else Inr self1) of
        Inl e \<Rightarrow> Inl e
      | Inr self2 \<Rightarrow>
     (if startswith ''multiple attempts:'' (lower line) then
        (case after_colon line of
           Inl e \<Rightarrow> Inl e
         | Inr v \<Rightarrow> Inr (self2\<lparr>multiple_attempts := strip v\<rparr>))
      else Inr self2)))"

lemma scan_body_index:
  "i \<le> snd (scan_body lines i q) \<and> snd (scan_body lines i q) \<le> max i (length lines)"
proof (induction lines i q rule: scan_body.induct)
  case (1 lines i q)
  show ?case
  proof (cases "i < length lines \<and> \<not> header_match (strip (lines ! i))")
    case True
    with "1.IH" [of "strip (lines ! i)"] show ?thesis
      by (subst (1 2) scan_body.simps) (simp add: Let_def)
  next
    case False
    then show ?thesis
      by (subst (1 2) scan_body.simps) (auto simp: Let_def)
  qed
qed

lemma parse_question_index:
  assumes "parse_question lines i = Inr (question, next_i)"
  shows "i < next_i \<and> next_i \<le> length lines"
proof -
  from assms have lt: "i < length lines"
    by (auto simp: parse_question_def split: if_splits)
  show ?thesis
  proof (cases "question_match (strip (lines ! i))")
    case None
    with assms lt show ?thesis
      by (auto simp: parse_question_def Let_def)
  next
    case (Some t)
    with assms lt have "next_i = snd (scan_body lines (i + 1) (new_question t))"
      by (auto simp: parse_question_def Let_def split: prod.splits)
    with scan_body_index [of "i + 1" lines "new_question t"] lt show ?thesis
      by auto
  qed
qed

text \<open>The \<open>while i < len(lines)\<close> loop of \<open>parse_content\<close>.\<close>

function parse_loop :: "string list \<Rightarrow> nat \<Rightarrow> parser \<Rightarrow> error + parser" where
  "parse_loop lines i self =
     (if i < length lines then
        (let line = strip (lines ! i)
         in if line = [] \<or> startswith ''%'' line then parse_loop lines (i + 1) self
            else
              (case parse_settings line self of
                 Inl e \<Rightarrow> Inl e
               | Inr self' \<Rightarrow>
                   if header_match line then
                     (case parse_question lines i of
                        Inl e \<Rightarrow> Inl e
                      | Inr (question, next_i) \<Rightarrow>
                          parse_loop lines next_i
                            (case question of
                               Some q \<Rightarrow> self'\<lparr>questions := questions self' @ [q]\<rparr>
                             | None \<Rightarrow> self'))
                   else parse_loop lines (i + 1) self'))
      else Inr self)"
  by pat_completeness auto
termination
proof (relation "measure (\<lambda>(lines, i, self). length lines - i)")
  show "wf (measure (\<lambda>(lines, i, self). length lines - i))"
    by simp
qed (auto dest: parse_question_index)

declare parse_loop.simps [simp del]

text \<open>\<open>Text2QtiParser.parse_content(content)\<close>\<close>

definition parse_content :: "parser \<Rightarrow> string \<Rightarrow> error + parser" where
  "parse_content self content =
     (let lines = split_lines content
      in parse_loop lines 0 (self\<lparr>questions := []\<rparr>))"

section \<open>Creating the quiz\<close>

text \<open>
  What the quiz script prints, one constructor for each \<open>print\<close> of
  \<open>create_canvas_quiz.py\<close>, with the values the message is formatted from.
\<close>

datatype quiz_output =
  QuizCreated string string
  | UnsupportedTypeWarning question_type
  | QuestionCreated nat question_type
  | ErrorCreatingQuestion nat error
  | UsingCanvasUrl string
  | UsingCourseId int
  | CreatingQuizFromFile string
  | CompleteBanner
  | QuizTitle string
  | QuizId string
  | TotalPoints real
  | QuestionsCreated nat
  | AssignmentUrl string int string
  | ErrorCreatingQuizFromFile error
  | NoFileProvided
  | HelpMessage

text \<open>The \<open>interaction_type_slug\<close> of the item that a \<open>_create_..._question\<close> method posts.\<close>

datatype interaction = choice_item | multi_answer_item | true_false_item | essay_item

text \<open>
  The world outside the script. A JSON object of a response is a list of keys and values.
  \<^item> \<open>read_file path\<close>: \<open>open(path).read()\<close>;
  \<^item> \<open>post_quiz course_id title instructions points_possible multiple_attempts\<close>: the
    request of \<open>CanvasQuizCreator.create_quiz\<close>, with \<open>raise_for_status\<close> and \<open>json()\<close>;
  \<^item> \<open>post_item course_id assignment_id slug question_data position\<close>: the same for the
    item that a \<open>_create_..._question\<close> method builds from the question.
\<close>

record 'r canvas_api =
  read_file :: "string \<Rightarrow> error + string"
  post_quiz :: "int \<Rightarrow> string \<Rightarrow> string \<Rightarrow> real \<Rightarrow> string \<Rightarrow> error + (string \<times> string) list"
  post_item :: "int \<Rightarrow> string \<Rightarrow> interaction \<Rightarrow> question \<Rightarrow> nat \<Rightarrow> error + 'r"

text \<open>\<open>d[key]\<close> on a JSON object.\<close>

definition subscript :: "(string \<times> string) list \<Rightarrow> string \<Rightarrow> error + string" where
  "subscript d k = (case map_of d k of None \<Rightarrow> Inl (KeyError k) | Some v \<Rightarrow> Inr v)"

text \<open>
  \<open>CanvasQuizCreator.create_question_from_parsed\<close>: what it prints and the outcome of the
  request.
\<close>

definition create_question_from_parsed ::
  "'r canvas_api \<Rightarrow> int \<Rightarrow> string \<Rightarrow> question \<Rightarrow> nat \<Rightarrow> quiz_output list \<times> (error + 'r)" where
  "create_question_from_parsed api course_id assignment_id question_data position =
     (let question_type = qtype question_data
      in if question_type = multiple_choice then
           ([], post_item api course_id assignment_id choice_item question_data position)
         else if question_type = multiple_answer then
           ([], post_item api course_id assignment_id multi_answer_item question_data position)
         else if question_type = true_false then
           ([], post_item api course_id assignment_id true_false_item question_data position)
         else if question_type = essay then
           ([], post_item api course_id assignment_id essay_item question_data position)
         else
           ([UnsupportedTypeWarning question_type],
            post_item api course_id assignment_id choice_item question_data position))"

text \<open>
  The loop \<open>for i, question_data in enumerate(quiz_data['questions'], 1)\<close> with its
  \<open>try\<close>/\<open>except Exception\<close>: the state is \<open>created_questions\<close> and the output so far.
\<close>

fun add_questions ::
  "'r canvas_api \<Rightarrow> int \<Rightarrow> string \<Rightarrow> nat \<Rightarrow> question list \<Rightarrow>
   'r list \<times> quiz_output list \<Rightarrow> 'r list \<times> quiz_output list" where
  "add_questions api course_id assignment_id i [] st = st"
| "add_questions api course_id assignment_id i (question_data # rest) (created_questions, out) =
     (case create_question_from_parsed api course_id assignment_id question_data i of
        (printed, Inr question) \<Rightarrow>
          add_questions api course_id assignment_id (i + 1) rest
            (created_questions @ [question],
             out @ printed @ [QuestionCreated i (qtype question_data)])
      | (printed, Inl e) \<Rightarrow>
          add_questions api course_id assignment_id (i + 1) rest
            (created_questions, out @ printed @ [ErrorCreatingQuestion i e]))"

text \<open>
  The dictionary that \<open>create_quiz_from_text2qti_file\<close> returns, with the keys \<open>quiz\<close>,
  \<open>questions\<close>, \<open>total_questions\<close> and \<open>total_points\<close>.
\<close>

record 'r quiz_result =
  result_quiz :: "(string \<times> string) list"
  result_questions :: "'r list"
  result_total_questions :: nat
  result_total_points :: real

text \<open>
  \<open>create_quiz_from_text2qti_file(file_path, course_id, canvas_url, api_token)\<close>: what it
  prints, and the result or the exception that leaves it. The URL and the token are part of
  \<open>api\<close>.
\<close>

definition create_quiz_from_text2qti_file ::
  "'r canvas_api \<Rightarrow> string \<Rightarrow> int \<Rightarrow> quiz_output list \<times> (error + 'r quiz_result)" where
  "create_quiz_from_text2qti_file api file_path course_id =
     (case read_file api file_path of
        Inl e \<Rightarrow> ([], Inl e)
      | Inr content \<Rightarrow>
     (case parse_content new_parser content of
        Inl e \<Rightarrow> ([], Inl e)
      | Inr quiz_data \<Rightarrow>
     (let total_points = sum_list (map points (questions quiz_data))
      in case post_quiz api course_id (quiz_title quiz_data) (quiz_description quiz_data)
                total_points (multiple_attempts quiz_data) of
           Inl e \<Rightarrow> ([], Inl e)
         | Inr quiz \<Rightarrow>
        (case subscript quiz ''id'' of
           Inl e \<Rightarrow> ([], Inl e)
         | Inr assignment_id \<Rightarrow>
             (let (created_questions, out) =
                    add_questions api course_id assignment_id 1 (questions quiz_data)
                      ([], [QuizCreated (quiz_title quiz_data) assignment_id])
              in (out,
                  Inr \<lparr>result_quiz = quiz, result_questions = created_questions,
                       result_total_questions = length created_questions,
                       result_total_points = total_points\<rparr>))))))"

text \<open>
  The prints of \<open>main\<close> that follow a successful call; each subscript may raise KeyError,
  after the lines before it are printed.
\<close>

definition print_summary ::
  "string \<Rightarrow> int \<Rightarrow> 'r quiz_result \<Rightarrow> quiz_output list \<times> error option" where
  "print_summary canvas_url course_id result =
     (case subscript (result_quiz result) ''title'' of
        Inl e \<Rightarrow> ([CompleteBanner], Some e)
      | Inr title \<Rightarrow>
     (case subscript (result_quiz result) ''id'' of
        Inl e \<Rightarrow> ([CompleteBanner, QuizTitle title], Some e)
      | Inr ident \<Rightarrow>
          ([CompleteBanner, QuizTitle title, QuizId ident, TotalPoints (result_total_points result),
            QuestionsCreated (result_total_questions result),
            AssignmentUrl canvas_url course_id ident], None)))"

text \<open>
  \<open>not x\<close> on the result of \<open>os.getenv\<close>: the variable is not set, or set to the empty
  string.
\<close>

definition not_set :: "string option \<Rightarrow> bool" where
  "not_set v = (case v of None \<Rightarrow> True | Some s \<Rightarrow> s = [])"

text \<open>
  The outcome of \<open>parser.parse_args()\<close> on the command line, for the parser of \<open>main\<close>
  with its one positional argument \<open>filename\<close>:
  \<^item> \<open>Parsed filename\<close>: the command line gives the file name;
  \<^item> \<open>Help\<close>: the command line asks for help (\<open>-h\<close>); the parser prints the help message
    to standard output and raises \<open>SystemExit(0)\<close>;
  \<^item> \<open>Usage\<close>: the command line does not parse (no file name, or an argument that the
    parser does not know); the parser prints the usage on standard error and raises
    \<open>SystemExit(2)\<close>.
\<close>

datatype arguments = Parsed string | Help | Usage

text \<open>
  \<open>load_dotenv()\<close>: \<open>environ\<close> is the environment of the process when \<open>main\<close> starts,
  \<open>dotenv\<close> the variables that the \<open>.env\<close> file gives (the empty map when there is no
  such file). A variable of the file is set only when the process does not have it yet; the
  result is the environment that \<open>os.getenv\<close> reads afterwards.
\<close>

definition load_dotenv ::
  "(string \<Rightarrow> string option) \<Rightarrow> (string \<Rightarrow> string option) \<Rightarrow> string \<Rightarrow> string option" where
  "load_dotenv dotenv environ name =
     (case environ name of Some v \<Rightarrow> Some v | None \<Rightarrow> dotenv name)"

text \<open>
  \<open>main\<close> of \<open>create_canvas_quiz.py\<close>: what it prints to standard output, and the exception
  that leaves it (None when it returns). \<open>args\<close> is the outcome of \<open>parser.parse_args()\<close>,
  \<open>environ\<close> and \<open>dotenv\<close> are the environment of the process and the \<open>.env\<close> file,
  \<open>py_int\<close> is Python's \<open>int\<close> on a string (None where it raises ValueError),
  \<open>path_exists\<close> is \<open>os.path.exists\<close>.
\<close>

definition main ::
  "'r canvas_api \<Rightarrow> (string \<Rightarrow> int option) \<Rightarrow> (string \<Rightarrow> bool) \<Rightarrow>
   (string \<Rightarrow> string option) \<Rightarrow> (string \<Rightarrow> string option) \<Rightarrow> arguments \<Rightarrow>
   quiz_output list \<times> error option" where
  "main api py_int path_exists environ dotenv args =
     (case args of
        Help \<Rightarrow> ([HelpMessage], Some (SystemExit 0))
      | Usage \<Rightarrow> ([], Some (SystemExit 2))
      | Parsed filename \<Rightarrow>
     (let getenv = load_dotenv dotenv environ;
          CANVAS_URL = getenv ''CANVAS_URL'';
          API_TOKEN = getenv ''CANVAS_API_TOKEN'';
          COURSE_ID = getenv ''CANVAS_COURSE_ID''
      in if not_set CANVAS_URL then
            ([], Some (ValueError
               ''CANVAS_URL not found in environment variables. Please check your .env file.''))
          else if not_set API_TOKEN then
            ([], Some (ValueError
               ''CANVAS_API_TOKEN not found in environment variables. Please check your .env file.''))
          else if not_set COURSE_ID then
            ([], Some (ValueError
               ''CANVAS_COURSE_ID not found in environment variables. Please check your .env file.''))
          else
            (case py_int (the COURSE_ID) of
               None \<Rightarrow>
                 ([], Some (ValueError
                    ''CANVAS_COURSE_ID must be a valid integer in your .env file.''))
             | Some course_id \<Rightarrow>
                 (let canvas_url = the CANVAS_URL;
                      out = [UsingCanvasUrl canvas_url, UsingCourseId course_id]
                  in if filename \<noteq> [] \<and> path_exists filename then
                       (case create_quiz_from_text2qti_file api filename course_id of
                          (printed, Inl e) \<Rightarrow>
                            (out @ [CreatingQuizFromFile filename] @ printed @
                             [ErrorCreatingQuizFromFile e], None)
                        | (printed, Inr result) \<Rightarrow>
                            (case print_summary canvas_url course_id result of
                               (summary, Some e) \<Rightarrow>
                                 (out @ [CreatingQuizFromFile filename] @ printed @ summary @
                                  [ErrorCreatingQuizFromFile e], None)
                             | (summary, None) \<Rightarrow>
                                 (out @ [CreatingQuizFromFile filename] @ printed @ summary,
                                  None)))
                     else (out @ [NoFileProvided], None)))))"

section \<open>Downloading the module items\<close>

text \<open>
  What \<open>get_canvas_module_items.py\<close> prints, one constructor for each \<open>print\<close> of the
  three download functions and of the summary at the end of its \<open>main\<close>, with the values
  the message is formatted from.
\<close>

datatype download_output =
  ProcessingModule int string
  | ProcessingItem string string int
  | SkippingItem string
  | ErrorDownloading string error
  | NoContentId string
  | FileInfo string string
  | DownloadedFile string
  | ErrorDownloadingFile string error
  | NoPageUrl string
  | DownloadedPage string
  | ErrorDownloadingPage string error
  | SuccessfullyExtracted nat
  | ItemSummary int int int string string
  | NoPagesFound

text \<open>
  The objects of the Canvas client. Every attribute that the script reads with \<open>getattr\<close>
  or with a dot may be absent: None is the absent attribute.
\<close>

record module_item =
  item_id :: "int option"
  item_module_id :: "int option"
  item_type :: "string option"
  item_published :: "bool option"
  item_title :: "string option"
  item_position :: "int option"
  item_content_id :: "int option"
  item_page_url :: "string option"

text \<open>\<open>mod_items\<close> is the outcome of the request that lists the items of the module.\<close>

record course_module =
  mod_id :: "int option"
  mod_name :: "string option"
  mod_position :: "int option"
  mod_items :: "error + module_item list"

text \<open>
  \<open>module.get_module_items()\<close>: the client formats the path of the request from the \<open>id\<close>
  of the module, which it reads with a dot, so on a module without \<open>id\<close> the call raises
  AttributeError; on a module with an \<open>id\<close> the outcome is that of the request.
\<close>

definition get_module_items :: "course_module \<Rightarrow> error + module_item list" where
  "get_module_items modul =
     (case mod_id modul of
        None \<Rightarrow> Inl (AttributeError ''id'')
      | Some ident \<Rightarrow> mod_items modul)"

text \<open>\<open>file_download path\<close> is the outcome of \<open>file_obj.download(path)\<close>.\<close>

record file_obj =
  file_filename :: "string option"
  file_content_type :: "string option"
  file_download :: "string \<times> string \<Rightarrow> error option"

record page =
  page_body :: "string option"

text \<open>
  The world outside the script: \<open>get_modules\<close> and \<open>get_page\<close> are the calls on the course,
  \<open>get_file\<close> the call on the client, \<open>mkdir\<close> is \<open>Path(download_dir).mkdir\<close>,
  \<open>write_text path title body\<close> is \<open>open(path, 'w')\<close> with the \<open>write\<close> of the page made
  of the title and the body, \<open>path_suffix\<close> is
  \<open>Path(name).suffix\<close>. A path is the directory and the file name in it.
  \<open>make_sortable_filename\<close> is taken as it comes: what follows holds for every function
  from the titles, the positions and the extension to a name or an exception.
\<close>

record lms =
  get_modules :: "error + course_module list"
  get_page :: "string \<Rightarrow> error + page"
  get_file :: "int \<Rightarrow> error + file_obj"
  mkdir :: "string \<Rightarrow> error option"
  write_text :: "string \<times> string \<Rightarrow> string \<Rightarrow> string \<Rightarrow> error option"
  path_suffix :: "string \<Rightarrow> string"
  make_sortable_filename :: "string \<Rightarrow> string \<Rightarrow> int \<Rightarrow> int \<Rightarrow> string \<Rightarrow> error + string"

text \<open>
  The state that the download functions change: the lines printed and the paths given to
  \<open>file_obj.download\<close> or to \<open>open(path, 'w')\<close>. The last two fields record the items
  that \<open>download_file\<close> and \<open>download_page\<close> were called with.
\<close>

record disk =
  stdout :: "download_output list"
  written :: "(string \<times> string) list"
  download_file_calls :: "module_item list"
  download_page_calls :: "module_item list"

definition print_line :: "download_output \<Rightarrow> disk \<Rightarrow> disk" where
  "print_line msg s = s\<lparr>stdout := stdout s @ [msg]\<rparr>"

text \<open>\<open>getattr(obj, name, dflt)\<close> on an attribute that may be absent.\<close>

definition getattr :: "'a option \<Rightarrow> 'a \<Rightarrow> 'a" where
  "getattr attribute dflt = (case attribute of None \<Rightarrow> dflt | Some v \<Rightarrow> v)"

text \<open>The \<open>try\<close> block of \<open>download_file\<close>: the state and the exception that leaves it.\<close>

definition download_file_try ::
  "lms \<Rightarrow> int \<Rightarrow> string \<Rightarrow> course_module \<Rightarrow> string \<Rightarrow> int \<Rightarrow> disk \<Rightarrow> disk \<times> error option" where
  "download_file_try w content_id title modul download_dir position s =
     (case get_file w content_id of
        Inl e \<Rightarrow> (s, Some e)
      | Inr file \<Rightarrow>
          (let original_filename = getattr (file_filename file) title;
               file_ext = path_suffix w original_filename;
               content_type = getattr (file_content_type file) ''unknown'';
               s1 = print_line (FileInfo content_type original_filename) s
           in case mod_name modul of
                None \<Rightarrow> (s1, Some (AttributeError ''name''))
              | Some name \<Rightarrow>
             (case mod_position modul of
                None \<Rightarrow> (s1, Some (AttributeError ''position''))
              | Some module_position \<Rightarrow>
             (case make_sortable_filename w title name module_position position file_ext of
                Inl e \<Rightarrow> (s1, Some e)
              | Inr sortable_filename \<Rightarrow>
                  (let filepath = (download_dir, sortable_filename);
                       s2 = s1\<lparr>written := written s1 @ [filepath]\<rparr>
                   in case file_download file filepath of
                        Some e \<Rightarrow> (s2, Some e)
                      | None \<Rightarrow> (print_line (DownloadedFile sortable_filename) s2, None))))))"

text \<open>
  \<open>download_file(item, module, course, canvas, download_dir, module_id, position)\<close>.
  \<open>not content_id\<close> holds for an absent attribute and for 0. Every exception of the
  \<open>try\<close> block is caught, so the function returns in every case.
\<close>

definition download_file ::
  "lms \<Rightarrow> module_item \<Rightarrow> course_module \<Rightarrow> string \<Rightarrow> int \<Rightarrow> disk \<Rightarrow> disk" where
  "download_file w item modul download_dir position s0 =
     (let s = s0\<lparr>download_file_calls := download_file_calls s0 @ [item]\<rparr>;
          content_id = item_content_id item;
          title = getattr (item_title item) ''untitled''
      in if content_id = None \<or> content_id = Some 0 then print_line (NoContentId title) s
         else (case download_file_try w (the content_id) title modul download_dir position s of
                 (s', None) \<Rightarrow> s'
               | (s', Some e) \<Rightarrow> print_line (ErrorDownloadingFile title e) s'))"

text \<open>The \<open>try\<close> block of \<open>download_page\<close>.\<close>

definition download_page_try ::
  "lms \<Rightarrow> string \<Rightarrow> string \<Rightarrow> course_module \<Rightarrow> string \<Rightarrow> int \<Rightarrow> disk \<Rightarrow> disk \<times> error option" where
  "download_page_try w page_url title modul download_dir position s =
     (case get_page w page_url of
        Inl e \<Rightarrow> (s, Some e)
      | Inr pg \<Rightarrow>
          (let page_content = getattr (page_body pg) []
           in case mod_name modul of
                None \<Rightarrow> (s, Some (AttributeError ''name''))
              | Some name \<Rightarrow>
             (case mod_position modul of
                None \<Rightarrow> (s, Some (AttributeError ''position''))
              | Some module_position \<Rightarrow>
             (case make_sortable_filename w title name module_position position ''.html'' of
                Inl e \<Rightarrow> (s, Some e)
              | Inr sortable_filename \<Rightarrow>
                  (let filepath = (download_dir, sortable_filename);
                       s1 = s\<lparr>written := written s @ [filepath]\<rparr>
                   in case write_text w filepath title page_content of
                        Some e \<Rightarrow> (s1, Some e)
                      | None \<Rightarrow> (print_line (DownloadedPage sortable_filename) s1, None))))))"

text \<open>
  \<open>download_page(item, module, course, canvas, download_dir, module_id, position)\<close>.
  \<open>not page_url\<close> holds for an absent attribute and for the empty string.
\<close>

definition download_page ::
  "lms \<Rightarrow> module_item \<Rightarrow> course_module \<Rightarrow> string \<Rightarrow> int \<Rightarrow> disk \<Rightarrow> disk" where
  "download_page w item modul download_dir position s0 =
     (let s = s0\<lparr>download_page_calls := download_page_calls s0 @ [item]\<rparr>;
          page_url = item_page_url item;
          title = getattr (item_title item) ''untitled''
      in if page_url = None \<or> page_url = Some [] then print_line (NoPageUrl title) s
         else (case download_page_try w (the page_url) title modul download_dir position s of
                 (s', None) \<Rightarrow> s'
               | (s', Some e) \<Rightarrow> print_line (ErrorDownloadingPage title e) s'))"

definition allowed_types :: "string list" where
  "allowed_types = [''File'', ''Attachment'', ''Page'']"

text \<open>
  The loop \<open>for item in items_to_download\<close>. The two download functions catch their own
  exceptions, so nothing reaches the \<open>except\<close> of this loop.
\<close>

fun download_items ::
  "lms \<Rightarrow> course_module \<Rightarrow> string \<Rightarrow> module_item list \<Rightarrow> disk \<Rightarrow> disk" where
  "download_items w modul download_dir [] s = s"
| "download_items w modul download_dir (item # rest) s =
     (let typ = getattr (item_type item) [];
          title = getattr (item_title item) ''untitled'';
          position = getattr (item_position item) 0;
          s1 = print_line (ProcessingItem title typ position) s;
          s2 = (if typ = ''File'' then download_file w item modul download_dir position s1
                else if typ = ''Page'' then download_page w item modul download_dir position s1
                else if typ = ''Attachment'' then
                  download_file w item modul download_dir position s1
                else print_line (SkippingItem typ) s1)
      in download_items w modul download_dir rest s2)"

text \<open>The test of the list comprehension that builds \<open>items_to_download\<close>.\<close>

definition wanted :: "module_item \<Rightarrow> bool" where
  "wanted item =
     (getattr (item_type item) [] \<in> set allowed_types \<and> getattr (item_published item) False)"

text \<open>
  The loop \<open>for module in modules\<close>: the state is \<open>all_items\<close> and the disk; an exception of
  \<open>module.get_module_items()\<close> leaves the function.
\<close>

fun download_modules ::
  "lms \<Rightarrow> string \<Rightarrow> course_module list \<Rightarrow> module_item list \<Rightarrow> disk \<Rightarrow>
   disk \<times> (error + module_item list)" where
  "download_modules w download_dir [] all_items s = (s, Inr all_items)"
| "download_modules w download_dir (modul # rest) all_items s =
     (let module_id = getattr (mod_id modul) 0;
          module_name = getattr (mod_name modul) ''Unknown Module'';
          s1 = print_line (ProcessingModule module_id module_name) s
      in case get_module_items modul of
           Inl e \<Rightarrow> (s1, Inl e)
         | Inr items \<Rightarrow>
             (let items_to_download = filter wanted items
              in download_modules w download_dir rest (all_items @ items_to_download)
                   (download_items w modul download_dir items_to_download s1)))"

text \<open>\<open>download_course_modules(canvas, course, download_dir)\<close>\<close>

definition download_course_modules ::
  "lms \<Rightarrow> string \<Rightarrow> disk \<Rightarrow> disk \<times> (error + module_item list)" where
  "download_course_modules w download_dir s =
     (case mkdir w download_dir of
        Some e \<Rightarrow> (s, Inl e)
      | None \<Rightarrow>
          (case get_modules w of
             Inl e \<Rightarrow> (s, Inl e)
           | Inr modules \<Rightarrow> download_modules w download_dir modules [] s))"




section \<open>A small course\<close>

text \<open>
  A module without name or position that lists four items: a published file without title,
  position or content id, a published quiz, an unpublished page, and a published page
  without page URL. The client can reach no file and no page.
\<close>

definition demo_file_item :: module_item where
  "demo_file_item =
     \<lparr>item_id = Some 11, item_module_id = Some 1, item_type = Some ''File'',
      item_published = Some True, item_title = None, item_position = None,
      item_content_id = None, item_page_url = None\<rparr>"

definition demo_quiz_item :: module_item where
  "demo_quiz_item =
     \<lparr>item_id = Some 12, item_module_id = Some 1, item_type = Some ''Quiz'',
      item_published = Some True, item_title = Some ''Quiz 1'', item_position = Some 2,
      item_content_id = Some 7, item_page_url = None\<rparr>"

definition demo_hidden_page :: module_item where
  "demo_hidden_page =
     \<lparr>item_id = Some 13, item_module_id = Some 1, item_type = Some ''Page'',
      item_published = Some False, item_title = Some ''Draft'', item_position = Some 3,
      item_content_id = None, item_page_url = Some ''draft''\<rparr>"

definition demo_page_item :: module_item where
  "demo_page_item =
     \<lparr>item_id = Some 14, item_module_id = Some 1, item_type = Some ''Page'',
      item_published = Some True, item_title = Some ''Intro'', item_position = Some 4,
      item_content_id = None, item_page_url = None\<rparr>"

definition demo_module :: course_module where
  "demo_module =
     \<lparr>mod_id = Some 1, mod_name = None, mod_position = None,
      mod_items = Inr [demo_file_item, demo_quiz_item, demo_hidden_page, demo_page_item]\<rparr>"

definition demo_lms :: lms where
  "demo_lms =
     \<lparr>get_modules = Inr [demo_module],
      get_page = (\<lambda>page_url. Inl (ExternalError ''offline'')),
      get_file = (\<lambda>content_id. Inl (ExternalError ''offline'')),
      mkdir = (\<lambda>download_dir. None),
      write_text = (\<lambda>path title body. None),
      path_suffix = (\<lambda>name. []),
      make_sortable_filename = (\<lambda>title module_title module_position position extension. Inr title)\<rparr>"

definition empty_disk :: disk where
  "empty_disk = \<lparr>stdout = [], written = [], download_file_calls = [], download_page_calls = []\<rparr>"










section \<open>The outcome of each question\<close>

text \<open>
  For the question \<open>q\<close> at position \<open>i\<close> of the quiz: the outcome of its creation, and the
  lines that the loop of \<open>create_quiz_from_text2qti_file\<close> prints for it.
\<close>

definition creation :: "'r canvas_api \<Rightarrow> int \<Rightarrow> string \<Rightarrow> nat \<times> question \<Rightarrow> error + 'r" where
  "creation api course_id assignment_id iq =
     snd (create_question_from_parsed api course_id assignment_id (snd iq) (fst iq))"

definition report :: "'r canvas_api \<Rightarrow> int \<Rightarrow> string \<Rightarrow> nat \<times> question \<Rightarrow> quiz_output list" where
  "report api course_id assignment_id iq =
     fst (create_question_from_parsed api course_id assignment_id (snd iq) (fst iq)) @
     [case creation api course_id assignment_id iq of
        Inr question \<Rightarrow> QuestionCreated (fst iq) (qtype (snd iq))
      | Inl e \<Rightarrow> ErrorCreatingQuestion (fst iq) e]"

definition created :: "error + 'r \<Rightarrow> 'r list" where
  "created outcome = (case outcome of Inr question \<Rightarrow> [question] | Inl e \<Rightarrow> [])"

text \<open>
  A quiz file with three questions, and a server that creates the quiz and every question
  but the second one.
\<close>

definition demo_content :: string where
  "demo_content =
     ''Quiz title: Sums'' @ [newline] @ ''1. What is 2+3?'' @ [newline] @ ''a) 6'' @ [newline] @
     ''*b) 5'' @ [newline] @ ''2. Why?'' @ [newline] @ ''___'' @ [newline] @
     ''3. What is 2+2?'' @ [newline] @ ''= 4''"

definition demo_api :: "nat canvas_api" where
  "demo_api =
     \<lparr>read_file = (\<lambda>path. Inr demo_content),
      post_quiz = (\<lambda>course_id title instructions points_possible multiple_attempts.
                     Inr [(''id'', ''42''), (''title'', title)]),
      post_item = (\<lambda>course_id assignment_id slug question_data position.
                     if position = 2 then Inl (ExternalError ''500 Server Error'')
                     else Inr position)\<rparr>"

text \<open>Python's \<open>int\<close> on the one string that the examples give it.\<close>

definition demo_int :: "string \<Rightarrow> int option" where
  "demo_int text = (if text = ''12345'' then Some 12345 else None)"

text \<open>What the parser makes of the quiz file above.\<close>

definition demo_quiz_data :: parser where
  "demo_quiz_data =
     \<lparr>quiz_title = ''Sums'', quiz_description = [], multiple_attempts = [],
      questions =
        [\<lparr>qtext = ''What is 2+3?'', qtype = multiple_choice,
          choices = [\<lparr>ctext = ''6'', correct = False\<rparr>, \<lparr>ctext = ''5'', correct = True\<rparr>],
          points = 1, answers = None, answer = None\<rparr>,
         \<lparr>qtext = ''Why?'', qtype = essay, choices = [], points = 1,
          answers = None, answer = None\<rparr>,
         \<lparr>qtext = ''What is 2+2?'', qtype = numerical, choices = [], points = 1,
          answers = None, answer = Some ''4''\<rparr>]\<rparr>"

text \<open>
  An environment that has \<open>CANVAS_URL\<close> only, and a \<open>.env\<close> file that gives
  \<open>CANVAS_API_TOKEN\<close> and another value for \<open>CANVAS_URL\<close>: \<open>CANVAS_COURSE_ID\<close> is in neither.
\<close>

definition demo_env :: "string \<Rightarrow> string option" where
  "demo_env = [''CANVAS_URL'' \<mapsto> ''https://canvas.example.edu'']"

definition demo_dotenv :: "string \<Rightarrow> string option" where
  "demo_dotenv =
     [''CANVAS_URL'' \<mapsto> ''https://other.example.edu'', ''CANVAS_API_TOKEN'' \<mapsto> ''secret'']"


section \<open>Properties of the parser\<close>

subsection \<open>The true/false detection\<close>

lemma both_in_pair:
  "x \<noteq> y \<Longrightarrow> (x \<in> set [a, b] \<and> y \<in> set [a, b]) = (a = x \<and> b = y \<or> a = y \<and> b = x)"
  by auto

lemma if_update_qtype:
  "(if hit then q\<lparr>qtype := true_false\<rparr> else q) =
     q\<lparr>qtype := if hit then true_false else qtype q\<rparr>"
  by (cases hit) simp_all

lemma detect_true_false_type:
  "detect_true_false q =
     q\<lparr>qtype :=
        (if qtype q = multiple_choice \<and>
            (\<exists>c1 c2. choices q = [c1, c2] \<and>
               (lower (ctext c1) = ''true'' \<and> lower (ctext c2) = ''false'' \<or>
                lower (ctext c1) = ''false'' \<and> lower (ctext c2) = ''true'' \<or>
                lower (ctext c1) = ''yes'' \<and> lower (ctext c2) = ''no'' \<or>
                lower (ctext c1) = ''no'' \<and> lower (ctext c2) = ''yes''))
         then true_false else qtype q)\<rparr>"
proof (cases "qtype q = multiple_choice \<and> length (choices q) = 2")
  case True
  then obtain c1 c2 where cs: "choices q = [c1, c2]"
    by (auto simp: length_Suc_conv numeral_2_eq_2)
  define a where "a = lower (ctext c1)"
  define b where "b = lower (ctext c2)"
  define hit where "hit = (a = ''true'' \<and> b = ''false'' \<or> a = ''false'' \<and> b = ''true'' \<or>
                           a = ''yes'' \<and> b = ''no'' \<or> a = ''no'' \<and> b = ''yes'')"
  have tf: "(''true'' \<in> set [a, b] \<and> ''false'' \<in> set [a, b]) =
            (a = ''true'' \<and> b = ''false'' \<or> a = ''false'' \<and> b = ''true'')"
    by (rule both_in_pair) simp
  have yn: "(''yes'' \<in> set [a, b] \<and> ''no'' \<in> set [a, b]) =
            (a = ''yes'' \<and> b = ''no'' \<or> a = ''no'' \<and> b = ''yes'')"
    by (rule both_in_pair) simp
  have ts: "map (\<lambda>c. lower (ctext c)) (choices q) = [a, b]"
    by (simp add: cs a_def b_def)
  have "detect_true_false q =
          (if (''true'' \<in> set [a, b] \<and> ''false'' \<in> set [a, b]) \<or>
              (''yes'' \<in> set [a, b] \<and> ''no'' \<in> set [a, b])
           then q\<lparr>qtype := true_false\<rparr> else q)"
    unfolding detect_true_false_def Let_def ts using True by (simp del: set_simps)
  then have code: "detect_true_false q = q\<lparr>qtype := if hit then true_false else qtype q\<rparr>"
    unfolding tf yn hit_def [symmetric] disj_assoc if_update_qtype .
  have ex: "(\<exists>c1' c2'. choices q = [c1', c2'] \<and> R c1' c2') = R c1 c2"
    for R :: "choice \<Rightarrow> choice \<Rightarrow> bool"
    unfolding cs by simp
  have cond: "(qtype q = multiple_choice \<and>
            (\<exists>c1 c2. choices q = [c1, c2] \<and>
               (lower (ctext c1) = ''true'' \<and> lower (ctext c2) = ''false'' \<or>
                lower (ctext c1) = ''false'' \<and> lower (ctext c2) = ''true'' \<or>
                lower (ctext c1) = ''yes'' \<and> lower (ctext c2) = ''no'' \<or>
                lower (ctext c1) = ''no'' \<and> lower (ctext c2) = ''yes''))) = hit"
    unfolding ex hit_def a_def b_def using True by simp
  show ?thesis
    unfolding code cond ..
next
  case False
  have "\<not> (\<exists>c1 c2. choices q = [c1, c2]) \<or> qtype q \<noteq> multiple_choice"
    using False by auto
  with False show ?thesis
    by (auto simp: detect_true_false_def)
qed

text \<open>
  Claim C9: when the scan of a question block ends with the type \<open>multiple_choice\<close> and
  exactly two choices whose lowercased texts are \<open>true\<close> and \<open>false\<close>, or \<open>yes\<close> and \<open>no\<close>,
  in either order, \<open>_parse_question\<close> returns the question with the type \<open>true_false\<close>;
  in every other case it returns the question of the scan with its type unchanged.
\<close>

theorem true_false_reclassification:
  assumes "start_idx < length lines"
    and "question_match (strip (lines ! start_idx)) = Some question_text"
    and "scan_body lines (start_idx + 1) (new_question question_text) = (q, i)"
  shows "parse_question lines start_idx =
           Inr (Some (q\<lparr>qtype :=
                  (if qtype q = multiple_choice \<and>
                      (\<exists>c1 c2. choices q = [c1, c2] \<and>
                         (lower (ctext c1) = ''true'' \<and> lower (ctext c2) = ''false'' \<or>
                          lower (ctext c1) = ''false'' \<and> lower (ctext c2) = ''true'' \<or>
                          lower (ctext c1) = ''yes'' \<and> lower (ctext c2) = ''no'' \<or>
                          lower (ctext c1) = ''no'' \<and> lower (ctext c2) = ''yes''))
                   then true_false else qtype q)\<rparr>), i)"
  using assms by (simp add: parse_question_def Let_def detect_true_false_type [symmetric])

theorem true_false_reclassification_witness:
  "parse_question [''1. Sky is blue?'', ''*a) True'', ''b) FALSE'', [], ''2. Next''] 0 =
     Inr (Some \<lparr>qtext = ''Sky is blue?'', qtype = true_false,
                 choices = [\<lparr>ctext = ''True'', correct = True\<rparr>,
                            \<lparr>ctext = ''FALSE'', correct = False\<rparr>],
                 points = 1, answers = None, answer = None\<rparr>, 4)"
proof -
  let ?lines = "[''1. Sky is blue?'', ''*a) True'', ''b) FALSE'', [], ''2. Next'']"
  let ?q = "\<lparr>qtext = ''Sky is blue?'', qtype = multiple_choice,
                 choices = [\<lparr>ctext = ''True'', correct = True\<rparr>,
                            \<lparr>ctext = ''FALSE'', correct = False\<rparr>],
                 points = 1, answers = None, answer = None\<rparr>"
  have h1: "0 < length ?lines" by simp
  have h2: "question_match (strip (?lines ! 0)) = Some ''Sky is blue?''"
    by code_simp
  have h3: "scan_body ?lines (0 + 1) (new_question ''Sky is blue?'') = (?q, 4)"
    by code_simp
  have low: "lower ''True'' = ''true''" "lower ''FALSE'' = ''false''"
    by code_simp+
  from true_false_reclassification [OF h1 h2 h3] show ?thesis
    by (simp add: low)
qed

subsection \<open>What the patterns match\<close>













section \<open>Properties of the download script\<close>

subsection \<open>Which items reach the download functions\<close>

lemma download_file_trace:
  "download_file_calls (download_file w item modul download_dir position s) =
     download_file_calls s @ [item] \<and>
   download_page_calls (download_file w item modul download_dir position s) =
     download_page_calls s"
  by (simp add: download_file_def download_file_try_def print_line_def Let_def
      split: sum.splits option.splits prod.splits)

lemma download_page_trace:
  "download_page_calls (download_page w item modul download_dir position s) =
     download_page_calls s @ [item] \<and>
   download_file_calls (download_page w item modul download_dir position s) =
     download_file_calls s"
  by (simp add: download_page_def download_page_try_def print_line_def Let_def
      split: sum.splits option.splits prod.splits)

lemma download_items_trace:
  "download_file_calls (download_items w modul download_dir items s) =
     download_file_calls s @
     filter (\<lambda>item. getattr (item_type item) [] \<in> {''File'', ''Attachment''}) items \<and>
   download_page_calls (download_items w modul download_dir items s) =
     download_page_calls s @ filter (\<lambda>item. getattr (item_type item) [] = ''Page'') items"
proof (induction items arbitrary: s)
  case Nil
  show ?case by simp
next
  case (Cons item rest)
  show ?case
    by (simp add: Let_def Cons.IH download_file_trace download_page_trace print_line_def)
qed

lemma download_modules_trace:
  "\<exists>fs ps.
     download_file_calls (fst (download_modules w download_dir modules all_items s)) =
       download_file_calls s @ fs \<and>
     download_page_calls (fst (download_modules w download_dir modules all_items s)) =
       download_page_calls s @ ps \<and>
     (\<forall>item \<in> set fs. wanted item \<and> getattr (item_type item) [] \<in> {''File'', ''Attachment''}) \<and>
     (\<forall>item \<in> set ps. wanted item \<and> getattr (item_type item) [] = ''Page'')"
proof (induction modules arbitrary: all_items s)
  case Nil
  show ?case by simp
next
  case (Cons modul rest)
  show ?case
  proof (cases "get_module_items modul")
    case (Inl e)
    then show ?thesis
      by (simp add: Let_def print_line_def)
  next
    case (Inr items)
    let ?todo = "filter wanted items"
    let ?s1 = "print_line (ProcessingModule (getattr (mod_id modul) 0)
                 (getattr (mod_name modul) ''Unknown Module'')) s"
    let ?s2 = "download_items w modul download_dir ?todo ?s1"
    have step: "download_modules w download_dir (modul # rest) all_items s =
                  download_modules w download_dir rest (all_items @ ?todo) ?s2"
      using Inr by (simp add: Let_def)
    from Cons.IH [of "all_items @ ?todo" ?s2] obtain fs ps where
      rest: "download_file_calls (fst (download_modules w download_dir rest (all_items @ ?todo) ?s2)) =
               download_file_calls ?s2 @ fs"
            "download_page_calls (fst (download_modules w download_dir rest (all_items @ ?todo) ?s2)) =
               download_page_calls ?s2 @ ps"
            "\<forall>item \<in> set fs. wanted item \<and> getattr (item_type item) [] \<in> {''File'', ''Attachment''}"
            "\<forall>item \<in> set ps. wanted item \<and> getattr (item_type item) [] = ''Page''"
      by blast
    let ?fs = "filter (\<lambda>item. getattr (item_type item) [] \<in> {''File'', ''Attachment''}) ?todo @ fs"
    let ?ps = "filter (\<lambda>item. getattr (item_type item) [] = ''Page'') ?todo @ ps"
    have "download_file_calls (fst (download_modules w download_dir (modul # rest) all_items s)) =
            download_file_calls s @ ?fs"
      unfolding step rest by (simp add: download_items_trace print_line_def)
    moreover have "download_page_calls (fst (download_modules w download_dir (modul # rest) all_items s)) =
            download_page_calls s @ ?ps"
      unfolding step rest by (simp add: download_items_trace print_line_def)
    moreover have "\<forall>item \<in> set ?fs. wanted item \<and> getattr (item_type item) [] \<in> {''File'', ''Attachment''}"
      using rest(3) by auto
    moreover have "\<forall>item \<in> set ?ps. wanted item \<and> getattr (item_type item) [] = ''Page''"
      using rest(4) by auto
    ultimately show ?thesis by blast
  qed
qed

lemma download_modules_result:
  "download_modules w download_dir modules all_items s = (s', Inr r) \<Longrightarrow>
     \<exists>new. r = all_items @ new \<and> (\<forall>item \<in> set new. wanted item)"
proof (induction modules arbitrary: all_items s)
  case Nil
  then show ?case by simp
next
  case (Cons modul rest)
  show ?case
  proof (cases "get_module_items modul")
    case (Inl e)
    with Cons.prems show ?thesis
      by (simp add: Let_def)
  next
    case (Inr items)
    let ?todo = "filter wanted items"
    from Cons.prems Inr obtain s1 where
      "download_modules w download_dir rest (all_items @ ?todo) s1 = (s', Inr r)"
      by (simp add: Let_def)
    from Cons.IH [OF this] obtain new where
      "r = (all_items @ ?todo) @ new" "\<forall>item \<in> set new. wanted item"
      by blast
    then have "r = all_items @ (?todo @ new) \<and> (\<forall>item \<in> set (?todo @ new). wanted item)"
      by auto
    then show ?thesis by blast
  qed
qed

lemma wanted_type:
  "wanted item \<Longrightarrow> item_type item \<in> {Some ''File'', Some ''Page'', Some ''Attachment''}"
  by (cases "item_type item") (auto simp: wanted_def getattr_def allowed_types_def)

lemma wanted_published:
  "wanted item \<Longrightarrow> item_published item = Some True"
  by (cases "item_published item") (auto simp: wanted_def getattr_def)

lemma download_course_modules_wanted:
  assumes "download_course_modules w download_dir s = (s', r)"
  shows "(\<forall>all_items. r = Inr all_items \<longrightarrow> (\<forall>item \<in> set all_items. wanted item)) \<and>
         (\<exists>fs ps. download_file_calls s' = download_file_calls s @ fs \<and>
                   download_page_calls s' = download_page_calls s @ ps \<and>
                   (\<forall>item \<in> set (fs @ ps). wanted item))"
proof (cases "mkdir w download_dir = None \<and> (\<exists>modules. get_modules w = Inr modules)")
  case True
  then obtain modules where ms: "mkdir w download_dir = None" "get_modules w = Inr modules"
    by blast
  with assms have run: "download_modules w download_dir modules [] s = (s', r)"
    by (simp add: download_course_modules_def)
  have "\<forall>all_items. r = Inr all_items \<longrightarrow> (\<forall>item \<in> set all_items. wanted item)"
    using download_modules_result [of w download_dir modules "[]" s s'] run by auto
  moreover from download_modules_trace [of w download_dir modules "[]" s] run
  have "\<exists>fs ps. download_file_calls s' = download_file_calls s @ fs \<and>
                   download_page_calls s' = download_page_calls s @ ps \<and>
                   (\<forall>item \<in> set (fs @ ps). wanted item)"
    by auto
  ultimately show ?thesis by blast
next
  case False
  with assms have "s' = s" "\<forall>all_items. r \<noteq> Inr all_items"
    by (auto simp: download_course_modules_def split: option.splits sum.splits)
  then show ?thesis by simp
qed

text \<open>
  Claim C7: \<open>download_course_modules\<close> returns only module items whose type is \<open>File\<close>,
  \<open>Page\<close> or \<open>Attachment\<close>, and every item that it passes to \<open>download_file\<close> or to
  \<open>download_page\<close> has one of these types, also when the function is left by an
  exception.
\<close>

theorem only_file_page_attachment:
  assumes "download_course_modules w download_dir s = (s', r)"
  shows "(\<forall>all_items. r = Inr all_items \<longrightarrow>
            (\<forall>item \<in> set all_items.
               item_type item \<in> {Some ''File'', Some ''Page'', Some ''Attachment''})) \<and>
         (\<exists>fs ps. download_file_calls s' = download_file_calls s @ fs \<and>
                   download_page_calls s' = download_page_calls s @ ps \<and>
                   (\<forall>item \<in> set (fs @ ps).
                      item_type item \<in> {Some ''File'', Some ''Page'', Some ''Attachment''}))"
proof -
  from download_course_modules_wanted [OF assms] obtain fs ps where
    ret: "\<forall>all_items. r = Inr all_items \<longrightarrow> (\<forall>item \<in> set all_items. wanted item)" and
    calls: "download_file_calls s' = download_file_calls s @ fs"
           "download_page_calls s' = download_page_calls s @ ps"
           "\<forall>item \<in> set (fs @ ps). wanted item"
    by blast
  from ret have "\<forall>all_items. r = Inr all_items \<longrightarrow>
            (\<forall>item \<in> set all_items.
               item_type item \<in> {Some ''File'', Some ''Page'', Some ''Attachment''})"
    using wanted_type by blast
  moreover from calls(3) have "\<forall>item \<in> set (fs @ ps).
        item_type item \<in> {Some ''File'', Some ''Page'', Some ''Attachment''}"
    using wanted_type by blast
  ultimately show ?thesis using calls(1,2) by blast
qed

theorem only_file_page_attachment_witness:
  "snd (download_course_modules demo_lms ''downloads'' empty_disk) =
     Inr [demo_file_item, demo_page_item] \<and>
   download_file_calls (fst (download_course_modules demo_lms ''downloads'' empty_disk)) =
     [demo_file_item] \<and>
   download_page_calls (fst (download_course_modules demo_lms ''downloads'' empty_disk)) =
     [demo_page_item] \<and>
   item_type demo_file_item = Some ''File'' \<and> item_type demo_page_item = Some ''Page'' \<and>
   item_type demo_quiz_item = Some ''Quiz''"
proof -
  let ?run = "download_course_modules demo_lms ''downloads'' empty_disk"
  have h: "?run = (fst ?run, snd ?run)" by simp
  have ev: "snd ?run = Inr [demo_file_item, demo_page_item]"
      "download_file_calls (fst ?run) = [demo_file_item]"
      "download_page_calls (fst ?run) = [demo_page_item]"
    by code_simp+
  have ty: "item_type demo_file_item = Some ''File''" "item_type demo_page_item = Some ''Page''"
      "item_type demo_quiz_item = Some ''Quiz''"
    by (simp_all add: demo_file_item_def demo_page_item_def demo_quiz_item_def)
  from only_file_page_attachment [OF h] ev ty show ?thesis
    by simp
qed

subsection \<open>Unpublished items\<close>

text \<open>
  Claim C10: every module item that \<open>download_course_modules\<close> returns has its
  \<open>published\<close> attribute present and True, and so has every item passed to
  \<open>download_file\<close> or to \<open>download_page\<close>: an unpublished item is neither downloaded nor
  returned, whatever its type.
\<close>

theorem returned_items_published:
  assumes "download_course_modules w download_dir s = (s', r)"
  shows "(\<forall>all_items. r = Inr all_items \<longrightarrow>
            (\<forall>item \<in> set all_items. item_published item = Some True)) \<and>
         (\<exists>fs ps. download_file_calls s' = download_file_calls s @ fs \<and>
                   download_page_calls s' = download_page_calls s @ ps \<and>
                   (\<forall>item \<in> set (fs @ ps). item_published item = Some True))"
proof -
  from download_course_modules_wanted [OF assms] obtain fs ps where
    ret: "\<forall>all_items. r = Inr all_items \<longrightarrow> (\<forall>item \<in> set all_items. wanted item)" and
    calls: "download_file_calls s' = download_file_calls s @ fs"
           "download_page_calls s' = download_page_calls s @ ps"
           "\<forall>item \<in> set (fs @ ps). wanted item"
    by blast
  from ret have "\<forall>all_items. r = Inr all_items \<longrightarrow>
            (\<forall>item \<in> set all_items. item_published item = Some True)"
    using wanted_published by blast
  moreover from calls(3) have "\<forall>item \<in> set (fs @ ps). item_published item = Some True"
    using wanted_published by blast
  ultimately show ?thesis using calls(1,2) by blast
qed

theorem returned_items_published_witness:
  "snd (download_course_modules demo_lms ''downloads'' empty_disk) =
     Inr [demo_file_item, demo_page_item] \<and>
   download_file_calls (fst (download_course_modules demo_lms ''downloads'' empty_disk)) @
   download_page_calls (fst (download_course_modules demo_lms ''downloads'' empty_disk)) =
     [demo_file_item, demo_page_item] \<and>
   item_published demo_file_item = Some True \<and> item_published demo_page_item = Some True \<and>
   item_published demo_hidden_page = Some False"
proof -
  let ?run = "download_course_modules demo_lms ''downloads'' empty_disk"
  have h: "?run = (fst ?run, snd ?run)" by simp
  have ev: "snd ?run = Inr [demo_file_item, demo_page_item]"
      "download_file_calls (fst ?run) = [demo_file_item]"
      "download_page_calls (fst ?run) = [demo_page_item]"
    by code_simp+
  have pub: "item_published demo_file_item = Some True"
      "item_published demo_page_item = Some True"
      "item_published demo_hidden_page = Some False"
    by (simp_all add: demo_file_item_def demo_page_item_def demo_hidden_page_def)
  from returned_items_published [OF h] ev pub show ?thesis
    by simp
qed

subsection \<open>Absent attributes\<close>













section \<open>Properties of the quiz creation\<close>

subsection \<open>A failed question does not stop the loop\<close>

lemma add_questions_outcomes:
  "add_questions api course_id assignment_id i qs (created_questions, out) =
     (created_questions @
        concat (map (\<lambda>iq. created (creation api course_id assignment_id iq)) (List.enumerate i qs)),
      out @ concat (map (report api course_id assignment_id) (List.enumerate i qs)))"
proof (induction qs arbitrary: i created_questions out)
  case Nil
  show ?case by simp
next
  case (Cons q qs)
  obtain printed outcome where
    step: "create_question_from_parsed api course_id assignment_id q i = (printed, outcome)"
    by (cases "create_question_from_parsed api course_id assignment_id q i")
  show ?case
  proof (cases outcome)
    case (Inl e)
    with step show ?thesis
      by (simp add: Cons.IH creation_def report_def created_def)
  next
    case (Inr question)
    with step show ?thesis
      by (simp add: Cons.IH creation_def report_def created_def)
  qed
qed

lemma length_created:
  "length (concat (map (\<lambda>x. created (f x)) xs)) = length (filter (\<lambda>x. \<not> isl (f x)) xs)"
  by (induction xs) (auto simp: created_def split: sum.splits)

text \<open>
  Claim C3: once the quiz is created, \<open>create_quiz_from_text2qti_file\<close> returns a result
  whatever the creation of each question does. It prints, for every parsed question in
  turn, either that the question was created or the error of its creation; the
  \<open>questions\<close> of the result are the created questions, in the order of the quiz, and
  \<open>total_questions\<close> is the number of questions whose creation succeeded.
\<close>

theorem question_errors_are_caught:
  assumes "read_file api file_path = Inr content"
    and "parse_content new_parser content = Inr quiz_data"
    and "post_quiz api course_id (quiz_title quiz_data) (quiz_description quiz_data)
           (sum_list (map points (questions quiz_data))) (multiple_attempts quiz_data) = Inr quiz"
    and "subscript quiz ''id'' = Inr assignment_id"
  shows "\<exists>result.
           create_quiz_from_text2qti_file api file_path course_id =
             (QuizCreated (quiz_title quiz_data) assignment_id #
                concat (map (report api course_id assignment_id)
                          (List.enumerate 1 (questions quiz_data))),
              Inr result) \<and>
           result_questions result =
             concat (map (\<lambda>iq. created (creation api course_id assignment_id iq))
                       (List.enumerate 1 (questions quiz_data))) \<and>
           result_total_questions result =
             length (filter (\<lambda>iq. \<not> isl (creation api course_id assignment_id iq))
                       (List.enumerate 1 (questions quiz_data)))"
  using assms
  by (simp add: create_quiz_from_text2qti_file_def Let_def add_questions_outcomes length_created)

theorem question_errors_are_caught_witness:
  "\<exists>result.
     create_quiz_from_text2qti_file demo_api ''quiz.txt'' 12345 =
       ([QuizCreated ''Sums'' ''42'', QuestionCreated 1 multiple_choice,
         ErrorCreatingQuestion 2 (ExternalError ''500 Server Error''),
         UnsupportedTypeWarning numerical, QuestionCreated 3 numerical],
        Inr result) \<and>
     result_questions result = [1, 3] \<and> result_total_questions result = 2"
proof -
  let ?quiz = "[(''id'', ''42''), (''title'', ''Sums'')]"
  have h1: "read_file demo_api ''quiz.txt'' = Inr demo_content"
    by (simp add: demo_api_def)
  have h2: "parse_content new_parser demo_content = Inr demo_quiz_data"
    by code_simp
  have h3: "post_quiz demo_api 12345 (quiz_title demo_quiz_data)
              (quiz_description demo_quiz_data)
              (sum_list (map points (questions demo_quiz_data)))
              (multiple_attempts demo_quiz_data) = Inr ?quiz"
    by (simp add: demo_api_def demo_quiz_data_def)
  have h4: "subscript ?quiz ''id'' = Inr ''42''"
    by (simp add: subscript_def)
  have title: "quiz_title demo_quiz_data = ''Sums''"
    by (simp add: demo_quiz_data_def)
  have printed: "concat (map (report demo_api 12345 ''42'')
                   (List.enumerate 1 (questions demo_quiz_data))) =
      [QuestionCreated 1 multiple_choice,
       ErrorCreatingQuestion 2 (ExternalError ''500 Server Error''),
       UnsupportedTypeWarning numerical, QuestionCreated 3 numerical]"
    by code_simp
  have made: "concat (map (\<lambda>iq. created (creation demo_api 12345 ''42'' iq))
                (List.enumerate 1 (questions demo_quiz_data))) = [1, 3]"
    by code_simp
  have count: "length (filter (\<lambda>iq. \<not> isl (creation demo_api 12345 ''42'' iq))
                (List.enumerate 1 (questions demo_quiz_data))) = 2"
    by code_simp
  from question_errors_are_caught [OF h1 h2 h3 h4] show ?thesis
    unfolding title printed made count by simp
qed

subsection \<open>A missing environment variable\<close>

text \<open>
  Claim C4, as amended: when the command line gives a file name and \<open>CANVAS_URL\<close>,
  \<open>CANVAS_API_TOKEN\<close> or \<open>CANVAS_COURSE_ID\<close> is still not set (or is empty) after
  \<open>load_dotenv()\<close>, that is, the process does not have it and the \<open>.env\<close> file does not
  give it, \<open>main\<close> of \<open>create_canvas_quiz.py\<close> raises a ValueError that names the first
  missing variable; the error is not caught, nothing is printed to standard output and no
  further work is done.
\<close>

theorem missing_variable_raises:
  assumes "not_set (load_dotenv dotenv environ ''CANVAS_URL'') \<or>
           not_set (load_dotenv dotenv environ ''CANVAS_API_TOKEN'') \<or>
           not_set (load_dotenv dotenv environ ''CANVAS_COURSE_ID'')"
  shows "main api py_int path_exists environ dotenv (Parsed filename) =
           ([], Some (ValueError
              ((if not_set (load_dotenv dotenv environ ''CANVAS_URL'') then ''CANVAS_URL''
                else if not_set (load_dotenv dotenv environ ''CANVAS_API_TOKEN'')
                  then ''CANVAS_API_TOKEN''
                else ''CANVAS_COURSE_ID'') @
               '' not found in environment variables. Please check your .env file.'')))"
  using assms by (auto simp: main_def Let_def)

theorem missing_variable_raises_witness:
  "not_set (load_dotenv demo_dotenv demo_env ''CANVAS_COURSE_ID'') \<and>
   main demo_api demo_int (\<lambda>path. True) demo_env demo_dotenv (Parsed ''quiz.txt'') =
     ([], Some (ValueError
        ''CANVAS_COURSE_ID not found in environment variables. Please check your .env file.''))"
proof -
  have given: "\<not> not_set (load_dotenv demo_dotenv demo_env ''CANVAS_URL'')"
      "\<not> not_set (load_dotenv demo_dotenv demo_env ''CANVAS_API_TOKEN'')"
    and missing: "not_set (load_dotenv demo_dotenv demo_env ''CANVAS_COURSE_ID'')"
    by (simp_all add: not_set_def load_dotenv_def demo_env_def demo_dotenv_def)
  from missing have h: "not_set (load_dotenv demo_dotenv demo_env ''CANVAS_URL'') \<or>
      not_set (load_dotenv demo_dotenv demo_env ''CANVAS_API_TOKEN'') \<or>
      not_set (load_dotenv demo_dotenv demo_env ''CANVAS_COURSE_ID'')"
    by blast
  from missing_variable_raises [OF h, of demo_api demo_int "\<lambda>path. True" "''quiz.txt''"]
    given missing
  show ?thesis by simp
qed

text \<open>
  Claim C4 as it is stated fails: with a file name on the command line and no variable set,
  neither in the process nor in the \<open>.env\<close> file, \<open>main\<close> is left by the ValueError and
  has printed nothing.
\<close>

theorem missing_variable_not_caught:
  "main demo_api demo_int (\<lambda>path. True) (\<lambda>name. None) (\<lambda>name. None) (Parsed ''quiz.txt'') =
     ([], Some (ValueError
        ''CANVAS_URL not found in environment variables. Please check your .env file.''))"
  by (simp add: main_def load_dotenv_def not_set_def)

end
